theory Spec2Isabelle
  imports Main
begin

section \<open>Python values and exceptions\<close>

text \<open>
  The blog domain objects of \<^verbatim>\<open>core/domain/blog_domain.py\<close> test the dynamic type of
  their fields (\<^verbatim>\<open>isinstance(title, python_utils.BASESTRING)\<close>,
  \<^verbatim>\<open>isinstance(tags, list)\<close>), so a field holds a dynamically typed Python value.
  A dictionary is an association list from string keys to values.
\<close>

datatype pyval =
    PyNone
  | PyBool bool
  | PyInt int
  | PyStr string
  | PyList "pyval list"
  | PyDict "(string \<times> pyval) list"

text \<open>
  Exceptions are values. A \<^verbatim>\<open>utils.ValidationError\<close> built with the \<^verbatim>\<open>%\<close> operator is
  kept as its format string together with the formatted arguments; the other constructors
  carry the name, key or message Python reports.
\<close>

datatype error =
    ValidationError string "pyval list"
  | NameError string
  | TypeError string
  | KeyError string
  | AttributeError string
  | IndexError
  | Exception string

text \<open>Sequencing of two fallible steps: the first exception raised wins.\<close>

definition and_then :: "error + 'a \<Rightarrow> ('a \<Rightarrow> error + 'b) \<Rightarrow> error + 'b" where
  "and_then r f = (case r of Inl e \<Rightarrow> Inl e | Inr x \<Rightarrow> f x)"

section \<open>Tag validation\<close>

text \<open>\<^verbatim>\<open>string.ascii_lowercase\<close>.\<close>

definition ascii_lowercase :: string where
  "ascii_lowercase = ''abcdefghijklmnopqrstuvwxyz''"

text \<open>The characters matched by \<^verbatim>\<open>\s\<close>: space, tab, line feed, vertical tab, form feed,
  carriage return.\<close>

definition whitespace :: string where
  "whitespace = [CHR '' '', CHR 0x09, CHR 0x0A, CHR 0x0B, CHR 0x0C, CHR 0x0D]"

text \<open>
  Modelled from the spec: \<^verbatim>\<open>constants.TAG_REGEX\<close>, whose declaration is not among the
  sources; the spec gives the pattern as \<^verbatim>\<open>^[a-z ]+$\<close>. \<open>re_match_TAG_REGEX s\<close> is the
  truth value of \<^verbatim>\<open>re.match(constants.TAG_REGEX, s)\<close>. Python's \<^verbatim>\<open>$\<close> also matches just
  before a line feed that ends the string, so one trailing line feed is tolerated by the
  pattern.
\<close>

definition tag_char :: "char \<Rightarrow> bool" where
  "tag_char c = (c \<in> set ascii_lowercase \<or> c = CHR '' '')"

definition re_match_TAG_REGEX :: "string \<Rightarrow> bool" where
  "re_match_TAG_REGEX s =
     (let body = (if s \<noteq> [] \<and> last s = CHR 0x0A then butlast s else s)
      in body \<noteq> [] \<and> list_all tag_char body)"

text \<open>\<^verbatim>\<open>re.search(r'\s\s+', tag)\<close>: some two neighbouring characters are both whitespace.\<close>

fun re_search_adjacent_whitespace :: "string \<Rightarrow> bool" where
  "re_search_adjacent_whitespace (a # b # cs) =
     ((a \<in> set whitespace \<and> b \<in> set whitespace) \<or> re_search_adjacent_whitespace (b # cs))"
| "re_search_adjacent_whitespace _ = False"

text \<open>The body of the \<^verbatim>\<open>for tag in tags\<close> loop of \<^verbatim>\<open>require_valid_tags\<close>, for one tag.
  \<^verbatim>\<open>tag[0]\<close> on an empty string would raise IndexError.\<close>

definition BlogPost_require_valid_tag :: "pyval \<Rightarrow> error + unit" where
  "BlogPost_require_valid_tag tag =
     (case tag of
        PyStr s \<Rightarrow>
          if \<not> re_match_TAG_REGEX s then
            Inl (ValidationError
              (''Tags should only contain lowercase letters and spaces, received: '%s'' @ [CHR 0x27])
              [tag])
          else (case s of
              [] \<Rightarrow> Inl IndexError
            | _ # _ \<Rightarrow>
                if hd s \<notin> set ascii_lowercase \<or> last s \<notin> set ascii_lowercase then
                  Inl (ValidationError
                    (''Tags should not start or end with whitespace, received: '%s'' @ [CHR 0x27])
                    [tag])
                else if re_search_adjacent_whitespace s then
                  Inl (ValidationError
                    (''Adjacent whitespace in tags should be collapsed, received: '%s'' @ [CHR 0x27])
                    [tag])
                else Inr ())
      | _ \<Rightarrow>
          Inl (ValidationError
            (''Expected each tag in 'tags' to be a string, received: '%s'' @ [CHR 0x27])
            [tag]))"

text \<open>The loop: the first offending tag raises.\<close>

fun BlogPost_require_valid_tags_loop :: "pyval list \<Rightarrow> error + unit" where
  "BlogPost_require_valid_tags_loop [] = Inr ()"
| "BlogPost_require_valid_tags_loop (tag # tags) =
     (case BlogPost_require_valid_tag tag of
        Inl e \<Rightarrow> Inl e
      | Inr _ \<Rightarrow> BlogPost_require_valid_tags_loop tags)"

text \<open>\<^verbatim>\<open>BlogPost.require_valid_tags(tags, strict)\<close>. \<^verbatim>\<open>len(set(tags))\<close> counts the distinct
  tags.\<close>

definition BlogPost_require_valid_tags :: "pyval \<Rightarrow> bool \<Rightarrow> error + unit" where
  "BlogPost_require_valid_tags tags strict =
     (case tags of
        PyList ts \<Rightarrow>
          (case BlogPost_require_valid_tags_loop ts of
             Inl e \<Rightarrow> Inl e
           | Inr _ \<Rightarrow>
               if strict \<and> length ts = 0 then
                 Inl (ValidationError ''Atleast one tag should be selected'' [])
               else if length (remdups ts) \<noteq> length ts then
                 Inl (ValidationError ''Some tags duplicate each other'' [])
               else Inr ())
      | _ \<Rightarrow> Inl (ValidationError ''Expected 'tags' to be a list, received: %s'' [tags]))"

text \<open>
  The pattern of the specification, \<^verbatim>\<open>^[a-z]+( [a-z]+)*$\<close>, read as a description of the
  whole tag: one or more words of lowercase letters, separated by single spaces. It is
  written as the two-state automaton of the expression: the flag says whether the previous
  character was a letter (the accepting state); a space is only allowed there, and must be
  followed by a letter.
\<close>

fun lowercase_words_from :: "bool \<Rightarrow> string \<Rightarrow> bool" where
  "lowercase_words_from in_word [] = in_word"
| "lowercase_words_from in_word (c # cs) =
     (if c \<in> set ascii_lowercase then lowercase_words_from True cs
      else in_word \<and> c = CHR '' '' \<and> lowercase_words_from False cs)"

definition matches_lowercase_words :: "string \<Rightarrow> bool" where
  "matches_lowercase_words s = lowercase_words_from False s"

definition is_validation_error :: "error + unit \<Rightarrow> bool" where
  "is_validation_error r = (case r of Inl (ValidationError _ _) \<Rightarrow> True | _ \<Rightarrow> False)"

section \<open>External collaborators\<close>

text \<open>
  A naive \<^verbatim>\<open>datetime.datetime\<close>, identified by its text at microsecond resolution.
\<close>

datatype datetime = Datetime string

text \<open>
  The modules \<^verbatim>\<open>constants\<close>, \<^verbatim>\<open>utils\<close>, \<^verbatim>\<open>html_cleaner\<close> and \<^verbatim>\<open>user_services\<close> are not
  among the sources. The domain objects are modelled over an arbitrary implementation of
  what they use of them: the two length limits, the truth value of
  \<^verbatim>\<open>re.match(constants.VALID_BLOG_POST_TITLE_REGEX, title)\<close>, and the functions called, each
  of which may raise.
\<close>

record env =
  MAX_CHARS_IN_BLOG_POST_TITLE :: nat
  MAX_CHARS_IN_BLOG_POST_URL_FRAGMENT :: nat
  re_match_VALID_BLOG_POST_TITLE_REGEX :: "string \<Rightarrow> bool"
  utils_require_valid_thumbnail_filename :: "pyval \<Rightarrow> error + unit"
  utils_require_valid_url_fragment :: "pyval \<Rightarrow> string \<Rightarrow> nat \<Rightarrow> error + unit"
  html_cleaner_clean :: "pyval \<Rightarrow> error + pyval"
  get_user_id_from_username :: "pyval \<Rightarrow> error + pyval"
  get_username :: "pyval \<Rightarrow> error + pyval"
  convert_naive_datetime_to_string :: "datetime \<Rightarrow> string"
  convert_string_to_naive_datetime_object :: "pyval \<Rightarrow> error + datetime"

section \<open>BlogPost: the class methods\<close>

text \<open>\<^verbatim>\<open>BlogPost.require_valid_thumbnail_filename(thumbnail_filename, strict=False)\<close>.\<close>

definition BlogPost_require_valid_thumbnail_filename ::
  "env \<Rightarrow> pyval \<Rightarrow> bool \<Rightarrow> error + unit" where
  "BlogPost_require_valid_thumbnail_filename env thumbnail_filename strict =
     (if strict \<and> (case thumbnail_filename of PyStr _ \<Rightarrow> False | _ \<Rightarrow> True) then
        Inl (ValidationError ''Expected thumbnail filename to be a string, received: %s.''
          [thumbnail_filename])
      else if thumbnail_filename = PyStr [] then
        Inl (ValidationError ''Thumbnail filename should not be empty.'' [])
      else utils_require_valid_thumbnail_filename env thumbnail_filename)"

text \<open>\<^verbatim>\<open>BlogPost.require_valid_blog_post_id(blog_post_id)\<close>.\<close>

definition BlogPost_require_valid_blog_post_id :: "pyval \<Rightarrow> error + unit" where
  "BlogPost_require_valid_blog_post_id blog_post_id =
     (case blog_post_id of
        PyStr s \<Rightarrow>
          if length s \<noteq> 12 then Inl (ValidationError ''Invalid Blog Post ID.'' [])
          else Inr ()
      | _ \<Rightarrow>
          Inl (ValidationError ''Blog Post ID should be a string, received: %s''
            [blog_post_id]))"

text \<open>\<^verbatim>\<open>BlogPost.require_valid_title(title, strict)\<close>.\<close>

definition BlogPost_require_valid_title :: "env \<Rightarrow> pyval \<Rightarrow> bool \<Rightarrow> error + unit" where
  "BlogPost_require_valid_title env title strict =
     (case title of
        PyStr t \<Rightarrow>
          if length t > MAX_CHARS_IN_BLOG_POST_TITLE env then
            Inl (ValidationError ''Blog Post title should at most have %d chars, received: %s''
              [PyInt (int (MAX_CHARS_IN_BLOG_POST_TITLE env)), title])
          else if strict then
            (if t = [] then Inl (ValidationError ''Title should not be empty'' [])
             else if \<not> re_match_VALID_BLOG_POST_TITLE_REGEX env t then
               Inl (ValidationError
                 (''Title field contains invalid characters. Only words'' @
                  ''(a-zA-Z) separated by spaces are allowed. Received %s'')
                 [title])
             else Inr ())
          else Inr ()
      | _ \<Rightarrow> Inl (ValidationError ''Title should be a string.'' []))"

text \<open>\<^verbatim>\<open>BlogPost.require_valid_url_fragment(url_fragment)\<close>.\<close>

definition BlogPost_require_valid_url_fragment :: "env \<Rightarrow> pyval \<Rightarrow> error + unit" where
  "BlogPost_require_valid_url_fragment env url_fragment =
     utils_require_valid_url_fragment env url_fragment ''Blog Post URL Fragment''
       (MAX_CHARS_IN_BLOG_POST_URL_FRAGMENT env)"

section \<open>BlogPostSummary: the class methods\<close>

text \<open>\<^verbatim>\<open>BlogPostSummary.require_valid_thumbnail_filename(thumbnail_filename, strict=False)\<close>.\<close>

definition BlogPostSummary_require_valid_thumbnail_filename ::
  "env \<Rightarrow> pyval \<Rightarrow> bool \<Rightarrow> error + unit" where
  "BlogPostSummary_require_valid_thumbnail_filename env thumbnail_filename strict =
     (if strict \<and> (case thumbnail_filename of PyStr _ \<Rightarrow> False | _ \<Rightarrow> True) then
        Inl (ValidationError ''Expected thumbnail filename to be a string, received: %s.''
          [thumbnail_filename])
      else if thumbnail_filename = PyStr [] then
        Inl (ValidationError ''Thumbnail filename should not be empty'' [])
      else utils_require_valid_thumbnail_filename env thumbnail_filename)"

text \<open>\<^verbatim>\<open>BlogPostSummary.require_valid_blog_post_id(blog_post_id)\<close>.\<close>

definition BlogPostSummary_require_valid_blog_post_id :: "pyval \<Rightarrow> error + unit" where
  "BlogPostSummary_require_valid_blog_post_id blog_post_id =
     (case blog_post_id of
        PyStr s \<Rightarrow>
          if length s \<noteq> 12 then Inl (ValidationError ''Invalid Blog Post ID.'' [])
          else Inr ()
      | _ \<Rightarrow>
          Inl (ValidationError ''Blog Post ID should be a string, received: %s''
            [blog_post_id]))"

text \<open>\<^verbatim>\<open>BlogPostSummary.require_valid_url_fragment(url_fragment)\<close>.\<close>

definition BlogPostSummary_require_valid_url_fragment :: "env \<Rightarrow> pyval \<Rightarrow> error + unit" where
  "BlogPostSummary_require_valid_url_fragment env url_fragment =
     utils_require_valid_url_fragment env url_fragment ''Blog Post URL Fragment''
       (MAX_CHARS_IN_BLOG_POST_URL_FRAGMENT env)"

text \<open>\<^verbatim>\<open>BlogPostSummary.require_valid_title(title, strict)\<close>: in strict mode the source
  only tests for the empty title.\<close>

definition BlogPostSummary_require_valid_title :: "env \<Rightarrow> pyval \<Rightarrow> bool \<Rightarrow> error + unit" where
  "BlogPostSummary_require_valid_title env title strict =
     (case title of
        PyStr t \<Rightarrow>
          if length t > MAX_CHARS_IN_BLOG_POST_TITLE env then
            Inl (ValidationError ''blog post title should at most have %d chars, received: %s''
              [PyInt (int (MAX_CHARS_IN_BLOG_POST_TITLE env)), title])
          else if strict then
            (if t = [] then Inl (ValidationError ''Title should not be empty'' [])
             else Inr ())
          else Inr ()
      | _ \<Rightarrow> Inl (ValidationError ''Title should be a string.'' []))"

text \<open>\<^verbatim>\<open>BlogPostSummary.require_valid_tags(tags, strict)\<close>, with the body of its loop.\<close>

definition BlogPostSummary_require_valid_tag :: "pyval \<Rightarrow> error + unit" where
  "BlogPostSummary_require_valid_tag tag =
     (case tag of
        PyStr s \<Rightarrow>
          if \<not> re_match_TAG_REGEX s then
            Inl (ValidationError
              (''Tags should only contain lowercase letters and spaces, received: '%s'' @ [CHR 0x27])
              [tag])
          else (case s of
              [] \<Rightarrow> Inl IndexError
            | _ # _ \<Rightarrow>
                if hd s \<notin> set ascii_lowercase \<or> last s \<notin> set ascii_lowercase then
                  Inl (ValidationError
                    (''Tags should not start or end with whitespace, received: '%s'' @ [CHR 0x27])
                    [tag])
                else if re_search_adjacent_whitespace s then
                  Inl (ValidationError
                    (''Adjacent whitespace in tags should be collapsed, received: '%s'' @ [CHR 0x27])
                    [tag])
                else Inr ())
      | _ \<Rightarrow>
          Inl (ValidationError
            (''Expected each tag in 'tags' to be a string, received: '%s'' @ [CHR 0x27])
            [tag]))"

fun BlogPostSummary_require_valid_tags_loop :: "pyval list \<Rightarrow> error + unit" where
  "BlogPostSummary_require_valid_tags_loop [] = Inr ()"
| "BlogPostSummary_require_valid_tags_loop (tag # tags) =
     (case BlogPostSummary_require_valid_tag tag of
        Inl e \<Rightarrow> Inl e
      | Inr _ \<Rightarrow> BlogPostSummary_require_valid_tags_loop tags)"

definition BlogPostSummary_require_valid_tags :: "pyval \<Rightarrow> bool \<Rightarrow> error + unit" where
  "BlogPostSummary_require_valid_tags tags strict =
     (case tags of
        PyList ts \<Rightarrow>
          (case BlogPostSummary_require_valid_tags_loop ts of
             Inl e \<Rightarrow> Inl e
           | Inr _ \<Rightarrow>
               if strict \<and> length ts = 0 then
                 Inl (ValidationError ''Atleast one tag should be selected'' [])
               else if length (remdups ts) \<noteq> length ts then
                 Inl (ValidationError ''Some tags duplicate each other'' [])
               else Inr ())
      | _ \<Rightarrow> Inl (ValidationError ''Expected 'tags' to be a list, received: %s'' [tags]))"

section \<open>BlogPost: the object and its methods\<close>

text \<open>The attributes assigned by \<^verbatim>\<open>BlogPost.__init__\<close>; \<open>id'\<close> is the attribute \<^verbatim>\<open>id\<close>.\<close>

record BlogPost =
  id' :: pyval
  author_id :: pyval
  title :: pyval
  thumbnail_filename :: pyval
  content :: pyval
  published_on :: "datetime option"
  last_updated :: "datetime option"
  url_fragment :: pyval
  tags :: pyval

text \<open>\<^verbatim>\<open>BlogPost.__init__\<close>: the content is sanitised before it is stored. A primed name is the
  parameter of the source that shares its name with an attribute.\<close>

definition BlogPost_init ::
  "env \<Rightarrow> pyval \<Rightarrow> pyval \<Rightarrow> pyval \<Rightarrow> pyval \<Rightarrow> pyval \<Rightarrow> pyval \<Rightarrow> pyval \<Rightarrow>
   datetime option \<Rightarrow> datetime option \<Rightarrow> error + BlogPost" where
  "BlogPost_init env blog_post_id author_id' title' content' url_fragment' tags'
      thumbnail_filename' last_updated' published_on' =
     (case html_cleaner_clean env content' of
        Inl e \<Rightarrow> Inl e
      | Inr cleaned \<Rightarrow>
          Inr \<lparr>BlogPost.id' = blog_post_id, BlogPost.author_id = author_id',
               BlogPost.title = title', BlogPost.thumbnail_filename = thumbnail_filename',
               BlogPost.content = cleaned, BlogPost.published_on = published_on',
               BlogPost.last_updated = last_updated', BlogPost.url_fragment = url_fragment',
               BlogPost.tags = tags'\<rparr>)"

text \<open>
  \<^verbatim>\<open>BlogPost.validate(strict=False)\<close>. A method is a function of the object that returns
  its outcome together with the object as the call leaves it; an exception leaves the
  object as it was when raised.
\<close>

definition BlogPost_validate :: "env \<Rightarrow> bool \<Rightarrow> BlogPost \<Rightarrow> (error + unit) \<times> BlogPost" where
  "BlogPost_validate env strict self =
     (case BlogPost_require_valid_blog_post_id (BlogPost.id' self) of
        Inl e \<Rightarrow> (Inl e, self)
      | Inr _ \<Rightarrow>
     (case BlogPost_require_valid_title env (BlogPost.title self) strict of
        Inl e \<Rightarrow> (Inl e, self)
      | Inr _ \<Rightarrow>
     (case BlogPost_require_valid_tags (BlogPost.tags self) strict of
        Inl e \<Rightarrow> (Inl e, self)
      | Inr _ \<Rightarrow>
     (case BlogPost_require_valid_thumbnail_filename env
             (BlogPost.thumbnail_filename self) strict of
        Inl e \<Rightarrow> (Inl e, self)
      | Inr _ \<Rightarrow>
     (case BlogPost.content self of
        PyStr c \<Rightarrow>
          if strict then
            (case BlogPost_require_valid_url_fragment env (BlogPost.url_fragment self) of
               Inl e \<Rightarrow> (Inl e, self)
             | Inr _ \<Rightarrow>
                 if c = [] then (Inl (ValidationError ''Content can not be empty'' []), self)
                 else (Inr (), self))
          else (Inr (), self)
      | _ \<Rightarrow>
          (Inl (ValidationError ''Expected contents to be a string, received: %s''
             [BlogPost.content self]), self))))))"

text \<open>The update methods, in the order of the source.\<close>

definition update_title :: "env \<Rightarrow> pyval \<Rightarrow> BlogPost \<Rightarrow> (error + unit) \<times> BlogPost" where
  "update_title env new_title self =
     (case BlogPost_require_valid_title env new_title True of
        Inl e \<Rightarrow> (Inl e, self)
      | Inr _ \<Rightarrow> (Inr (), self\<lparr>BlogPost.title := new_title\<rparr>))"

definition update_url_fragment :: "env \<Rightarrow> pyval \<Rightarrow> BlogPost \<Rightarrow> (error + unit) \<times> BlogPost" where
  "update_url_fragment env new_url_fragment self =
     (case BlogPost_require_valid_url_fragment env new_url_fragment of
        Inl e \<Rightarrow> (Inl e, self)
      | Inr _ \<Rightarrow> (Inr (), self\<lparr>BlogPost.url_fragment := new_url_fragment\<rparr>))"

text \<open>The source validates \<^verbatim>\<open>self.thumbnail_filename\<close>, with the default \<^verbatim>\<open>strict=False\<close>.\<close>

definition update_thumbnail_filename ::
  "env \<Rightarrow> pyval \<Rightarrow> BlogPost \<Rightarrow> (error + unit) \<times> BlogPost" where
  "update_thumbnail_filename env new_thumbnail_filename self =
     (case BlogPost_require_valid_thumbnail_filename env
             (BlogPost.thumbnail_filename self) False of
        Inl e \<Rightarrow> (Inl e, self)
      | Inr _ \<Rightarrow> (Inr (), self\<lparr>BlogPost.thumbnail_filename := new_thumbnail_filename\<rparr>))"

definition update_content :: "env \<Rightarrow> pyval \<Rightarrow> BlogPost \<Rightarrow> (error + unit) \<times> BlogPost" where
  "update_content env content' self =
     (case html_cleaner_clean env content' of
        Inl e \<Rightarrow> (Inl e, self)
      | Inr cleaned \<Rightarrow> (Inr (), self\<lparr>BlogPost.content := cleaned\<rparr>))"

definition update_tags :: "pyval \<Rightarrow> BlogPost \<Rightarrow> (error + unit) \<times> BlogPost" where
  "update_tags tags' self =
     (case BlogPost_require_valid_tags tags' True of
        Inl e \<Rightarrow> (Inl e, self)
      | Inr _ \<Rightarrow> (Inr (), self\<lparr>BlogPost.tags := tags'\<rparr>))"

section \<open>BlogPostSummary: the object and its validation\<close>

record BlogPostSummary =
  id' :: pyval
  author_id :: pyval
  title :: pyval
  thumbnail_filename :: pyval
  summary :: pyval
  published_on :: "datetime option"
  last_updated :: "datetime option"
  url_fragment :: pyval
  tags :: pyval

text \<open>\<^verbatim>\<open>BlogPostSummary.validate(strict=False)\<close>.\<close>

definition BlogPostSummary_validate ::
  "env \<Rightarrow> bool \<Rightarrow> BlogPostSummary \<Rightarrow> (error + unit) \<times> BlogPostSummary" where
  "BlogPostSummary_validate env strict self =
     (case BlogPostSummary_require_valid_blog_post_id (BlogPostSummary.id' self) of
        Inl e \<Rightarrow> (Inl e, self)
      | Inr _ \<Rightarrow>
     (case BlogPostSummary_require_valid_title env (BlogPostSummary.title self) strict of
        Inl e \<Rightarrow> (Inl e, self)
      | Inr _ \<Rightarrow>
     (case BlogPostSummary_require_valid_tags (BlogPostSummary.tags self) strict of
        Inl e \<Rightarrow> (Inl e, self)
      | Inr _ \<Rightarrow>
     (case BlogPostSummary_require_valid_thumbnail_filename env
             (BlogPostSummary.thumbnail_filename self) strict of
        Inl e \<Rightarrow> (Inl e, self)
      | Inr _ \<Rightarrow>
     (case BlogPostSummary.summary self of
        PyStr c \<Rightarrow>
          if strict then
            (case BlogPostSummary_require_valid_url_fragment env
                    (BlogPostSummary.url_fragment self) of
               Inl e \<Rightarrow> (Inl e, self)
             | Inr _ \<Rightarrow>
                 if c = [] then (Inl (ValidationError ''Summary can not be empty'' []), self)
                 else (Inr (), self))
          else (Inr (), self)
      | _ \<Rightarrow>
          (Inl (ValidationError ''Expected summary to be a string, received: %s''
             [BlogPostSummary.summary self]), self))))))"

section \<open>Serialisation of a BlogPost\<close>

text \<open>
  Dictionaries: \<^verbatim>\<open>d[k]\<close> raises KeyError on a missing key, \<^verbatim>\<open>d[k] = v\<close> replaces the value
  of a present key and appends a new one, \<^verbatim>\<open>k in d\<close> tests for the key.
\<close>

definition dict_getitem :: "(string \<times> pyval) list \<Rightarrow> string \<Rightarrow> error + pyval" where
  "dict_getitem d k = (case map_of d k of None \<Rightarrow> Inl (KeyError k) | Some v \<Rightarrow> Inr v)"

definition dict_setitem :: "(string \<times> pyval) list \<Rightarrow> string \<Rightarrow> pyval \<Rightarrow> (string \<times> pyval) list" where
  "dict_setitem d k v =
     (if map_of d k = None then d @ [(k, v)]
      else map (\<lambda>kv. if fst kv = k then (k, v) else kv) d)"

definition dict_contains :: "(string \<times> pyval) list \<Rightarrow> string \<Rightarrow> bool" where
  "dict_contains d k = (map_of d k \<noteq> None)"

text \<open>
  A JSON document is kept as its syntax tree; the text that \<^verbatim>\<open>json.dumps\<close> prints for it and
  its UTF-8 encoding are left out. \<open>json_dumps\<close> and \<open>json_loads\<close> are the two library
  functions on these trees.
\<close>

datatype json =
    JNull
  | JBool bool
  | JNumber int
  | JString string
  | JArray "json list"
  | JObject "(string \<times> json) list"

primrec json_dumps :: "pyval \<Rightarrow> json" where
  "json_dumps PyNone = JNull"
| "json_dumps (PyBool b) = JBool b"
| "json_dumps (PyInt i) = JNumber i"
| "json_dumps (PyStr s) = JString s"
| "json_dumps (PyList xs) = JArray (map json_dumps xs)"
| "json_dumps (PyDict kvs) = JObject (map (map_prod id json_dumps) kvs)"

primrec json_loads :: "json \<Rightarrow> pyval" where
  "json_loads JNull = PyNone"
| "json_loads (JBool b) = PyBool b"
| "json_loads (JNumber i) = PyInt i"
| "json_loads (JString s) = PyStr s"
| "json_loads (JArray xs) = PyList (map json_loads xs)"
| "json_loads (JObject kvs) = PyDict (map (map_prod id json_loads) kvs)"

text \<open>\<^verbatim>\<open>BlogPost.to_dict()\<close>: the value stored under \<^verbatim>\<open>author_name\<close> is
  \<^verbatim>\<open>user_services.get_user_id_from_username(self.author_id)\<close>.\<close>

definition BlogPost_to_dict :: "env \<Rightarrow> BlogPost \<Rightarrow> error + (string \<times> pyval) list" where
  "BlogPost_to_dict env self =
     and_then (get_user_id_from_username env (BlogPost.author_id self)) (\<lambda>author_name.
       Inr [(''id'', BlogPost.id' self),
            (''author_name'', author_name),
            (''title'', BlogPost.title self),
            (''content'', BlogPost.content self),
            (''thumbnail_filename'', BlogPost.thumbnail_filename self),
            (''tags'', BlogPost.tags self),
            (''url_fragment'', BlogPost.url_fragment self)])"

text \<open>\<^verbatim>\<open>BlogPost.from_dict(blog_post_dict, blog_post_published_on, blog_post_last_updated)\<close>.\<close>

definition BlogPost_from_dict ::
  "env \<Rightarrow> (string \<times> pyval) list \<Rightarrow> datetime option \<Rightarrow> datetime option \<Rightarrow> error + BlogPost" where
  "BlogPost_from_dict env blog_post_dict blog_post_published_on blog_post_last_updated =
     and_then (dict_getitem blog_post_dict ''author_name'') (\<lambda>author_name.
     and_then (get_user_id_from_username env author_name) (\<lambda>author.
     and_then (dict_getitem blog_post_dict ''id'') (\<lambda>v_id.
     and_then (dict_getitem blog_post_dict ''title'') (\<lambda>v_title.
     and_then (dict_getitem blog_post_dict ''content'') (\<lambda>v_content.
     and_then (dict_getitem blog_post_dict ''url_fragment'') (\<lambda>v_url_fragment.
     and_then (dict_getitem blog_post_dict ''tags'') (\<lambda>v_tags.
     and_then (dict_getitem blog_post_dict ''thumbnail_filename'') (\<lambda>v_thumbnail_filename.
       BlogPost_init env v_id author v_title v_content v_url_fragment v_tags
         v_thumbnail_filename blog_post_last_updated blog_post_published_on))))))))"

text \<open>\<^verbatim>\<open>BlogPost.serialize()\<close>: a timestamp that is \<^verbatim>\<open>None\<close> gets no key.\<close>

definition BlogPost_serialize :: "env \<Rightarrow> BlogPost \<Rightarrow> error + json" where
  "BlogPost_serialize env self =
     and_then (BlogPost_to_dict env self) (\<lambda>d0.
       let d1 = (case BlogPost.last_updated self of
                   None \<Rightarrow> d0
                 | Some t \<Rightarrow>
                     dict_setitem d0 ''last_updated''
                       (PyStr (convert_naive_datetime_to_string env t)));
           d2 = (case BlogPost.published_on self of
                   None \<Rightarrow> d1
                 | Some t \<Rightarrow>
                     dict_setitem d1 ''published_on''
                       (PyStr (convert_naive_datetime_to_string env t)))
       in Inr (json_dumps (PyDict d2)))"

text \<open>The conditional expressions of \<^verbatim>\<open>deserialize\<close> that read a timestamp.\<close>

definition read_timestamp ::
  "env \<Rightarrow> (string \<times> pyval) list \<Rightarrow> string \<Rightarrow> error + datetime option" where
  "read_timestamp env blog_post_dict k =
     (if dict_contains blog_post_dict k then
        and_then (dict_getitem blog_post_dict k) (\<lambda>v.
        and_then (convert_string_to_naive_datetime_object env v) (\<lambda>t. Inr (Some t)))
      else Inr None)"

text \<open>\<^verbatim>\<open>BlogPost.deserialize(json_string)\<close>. A document that is not an object makes the
  subscripts raise TypeError.\<close>

definition BlogPost_deserialize :: "env \<Rightarrow> json \<Rightarrow> error + BlogPost" where
  "BlogPost_deserialize env json_string =
     (case json_loads json_string of
        PyDict blog_post_dict \<Rightarrow>
          and_then (read_timestamp env blog_post_dict ''published_on'') (\<lambda>v_published_on.
          and_then (read_timestamp env blog_post_dict ''last_updated'') (\<lambda>v_last_updated.
            BlogPost_from_dict env blog_post_dict v_published_on v_last_updated))
      | _ \<Rightarrow> Inl (TypeError ''blog_post_dict is not a dict''))"

section \<open>BlogPostRights\<close>

text \<open>The attributes as the constructor documents them: \<^verbatim>\<open>editor_ids: list(str)\<close>.\<close>

record BlogPostRights =
  id' :: string
  editor_ids :: "string list"
  blog_post_is_published :: bool

text \<open>\<^verbatim>\<open>BlogPostRights.is_editor(user_id)\<close>, with \<^verbatim>\<open>user_id: str or None\<close>: the operator
  \<^verbatim>\<open>in\<close> compares \<^verbatim>\<open>user_id\<close> with each element of the list.\<close>

definition is_editor :: "BlogPostRights \<Rightarrow> string option \<Rightarrow> bool" where
  "is_editor self user_id = (user_id \<in> set (map Some (BlogPostRights.editor_ids self)))"

section \<open>Audit errors of jobs/blog\_validation\_error.py\<close>

text \<open>The stored record that the audits read.\<close>

record BlogPostModel =
  id' :: string
  title :: string
  url_fragment :: string

datatype error_class =
    BaseAuditError_class
  | DuplicateBlogTitleError_class
  | DuplicateBlogUrlError_class

text \<open>The base classes named in the two class statements.\<close>

fun bases :: "error_class \<Rightarrow> error_class list" where
  "bases BaseAuditError_class = []"
| "bases DuplicateBlogTitleError_class = [BaseAuditError_class]"
| "bases DuplicateBlogUrlError_class = [BaseAuditError_class]"

definition issubclass :: "error_class \<Rightarrow> error_class \<Rightarrow> bool" where
  "issubclass c d = (c = d \<or> d \<in> set (bases c))"

record audit_error =
  error_class_of :: error_class
  message :: string
  model :: BlogPostModel

text \<open>
  Modelled from the spec: \<^verbatim>\<open>base_validation_errors.BaseAuditError.__init__(message, model)\<close>,
  which is not among the sources: the error carries its message and the record it is
  about. \<open>super_init t c\<close> is \<^verbatim>\<open>super(t, self).__init__(message, model)\<close> for an object of
  class \<open>c\<close>: Python raises TypeError unless \<open>c\<close> is \<open>t\<close> or a subclass of it.
\<close>

definition super_init ::
  "error_class \<Rightarrow> error_class \<Rightarrow> string \<Rightarrow> BlogPostModel \<Rightarrow> error + audit_error" where
  "super_init t c msg m =
     (if issubclass c t then
        Inr \<lparr>error_class_of = c, message = msg, model = m\<rparr>
      else Inl (TypeError ''super(type, obj): obj must be an instance or subtype of type''))"

text \<open>The two constructors; \<open>quoted\<close> is \<^verbatim>\<open>utils.quoted\<close>, which is not among the sources.\<close>

definition DuplicateBlogTitleError_message :: "(string \<Rightarrow> string) \<Rightarrow> BlogPostModel \<Rightarrow> string" where
  "DuplicateBlogTitleError_message quoted m =
     ''title='' @ quoted (BlogPostModel.title m) @ '' is not unique''"

definition DuplicateBlogTitleError ::
  "(string \<Rightarrow> string) \<Rightarrow> BlogPostModel \<Rightarrow> error + audit_error" where
  "DuplicateBlogTitleError quoted m =
     super_init DuplicateBlogTitleError_class DuplicateBlogTitleError_class
       (DuplicateBlogTitleError_message quoted m) m"

definition DuplicateBlogUrlError_message :: "(string \<Rightarrow> string) \<Rightarrow> BlogPostModel \<Rightarrow> string" where
  "DuplicateBlogUrlError_message quoted m =
     ''url='' @ quoted (BlogPostModel.title m) @ '' is not unique''"

definition DuplicateBlogUrlError ::
  "(string \<Rightarrow> string) \<Rightarrow> BlogPostModel \<Rightarrow> error + audit_error" where
  "DuplicateBlogUrlError quoted m =
     super_init DuplicateBlogTitleError_class DuplicateBlogUrlError_class
       (DuplicateBlogUrlError_message quoted m) m"

section \<open>The audits of jobs/transforms/blog\_validations.py\<close>

text \<open>
  Both methods read names that must be bound when the line runs. A scope is the list of
  bindings in force, local names first; reading an unbound name raises NameError.
\<close>

datatype py_obj =
    ModuleObj string
  | ClassObj string
  | FunctionObj string
  | SelfObj
  | ModelObj BlogPostModel

definition lookup_name :: "(string \<times> py_obj) list \<Rightarrow> string \<Rightarrow> error + py_obj" where
  "lookup_name scope n = (case map_of scope n of None \<Rightarrow> Inl (NameError n) | Some v \<Rightarrow> Inr v)"

text \<open>The names bound at the top level of the module: its imports, the tuple assignment
  from \<^verbatim>\<open>models.Registry.import_models\<close>, and its class and function statements.\<close>

definition module_globals :: "(string \<times> py_obj) list" where
  "module_globals =
     [(''absolute_import'', ModuleObj ''__future__''),
      (''unicode_literals'', ModuleObj ''__future__''),
      (''datetime'', ModuleObj ''datetime''),
      (''models'', ModuleObj ''core.platform.models''),
      (''feconf'', ModuleObj ''feconf''),
      (''job_utils'', ModuleObj ''jobs.job_utils''),
      (''validation_decorators'', ModuleObj ''jobs.decorators.validation_decorators''),
      (''base_validation'', ModuleObj ''jobs.transforms.base_validation''),
      (''user_validation_errors'', ModuleObj ''jobs.types.user_validation_errors''),
      (''beam'', ModuleObj ''apache_beam''),
      (''base_models'', ModuleObj ''base_models''),
      (''blog_models'', ModuleObj ''blog_models''),
      (''ValidateBlogModelDomainObjectsInstances'',
         ClassObj ''ValidateBlogModelDomainObjectsInstances''),
      (''ValidateTitleMatchesSummaryModelTitle'',
         ClassObj ''ValidateTitleMatchesSummaryModelTitle''),
      (''blog_post_model_relationships'', FunctionObj ''blog_post_model_relationships''),
      (''blog_post_summary_model_relationships'',
         FunctionObj ''blog_post_summary_model_relationships''),
      (''blog_post_rights_model_relationships'',
         FunctionObj ''blog_post_rights_model_relationships'')]"

text \<open>The attribute \<^verbatim>\<open>id\<close> of an object.\<close>

definition getattr_id :: "py_obj \<Rightarrow> error + string" where
  "getattr_id obj =
     (case obj of ModelObj m \<Rightarrow> Inr (BlogPostModel.id' m) | _ \<Rightarrow> Inl (AttributeError ''id''))"

datatype validation_mode = VALIDATION_MODES_strict | VALIDATION_MODES_non_strict

text \<open>
  \<^verbatim>\<open>ValidateBlogModelDomainObjectsInstances._get_domain_object_validation_type(self,
  unused_item)\<close>. \<open>get_blog_post_rights\<close> stands for
  \<^verbatim>\<open>blog_services.get_blog_post_rights(_, strict=True)\<close>, which is not among the sources.
  The names are read in the order in which Python evaluates the line.
\<close>

definition get_domain_object_validation_type ::
  "(string \<times> py_obj) list \<Rightarrow> (string \<Rightarrow> error + BlogPostRights) \<Rightarrow> BlogPostModel \<Rightarrow>
   error + validation_mode" where
  "get_domain_object_validation_type globals get_blog_post_rights unused_item =
     (let scope = [(''self'', SelfObj), (''unused_item'', ModelObj unused_item)] @ globals in
      and_then (lookup_name scope ''blog_services'') (\<lambda>_.
      and_then (lookup_name scope ''item'') (\<lambda>item.
      and_then (getattr_id item) (\<lambda>item_id.
      and_then (get_blog_post_rights item_id) (\<lambda>blog_post_rights.
        if BlogPostRights.blog_post_is_published blog_post_rights then
          and_then (lookup_name scope ''VALIDATION_MODES'') (\<lambda>_. Inr VALIDATION_MODES_strict)
        else
          and_then (lookup_name scope ''VALIDATION_MODES'')
            (\<lambda>_. Inr VALIDATION_MODES_non_strict))))))"

text \<open>The finding the title audit yields; its class is not among the sources, so the
  finding is kept as the constructor call with its argument.\<close>

datatype finding = ValidateTitleMatchesSummaryTitleError py_obj

text \<open>
  \<^verbatim>\<open>ValidateTitleMatchesSummaryModelTitle.process(self, input_model)\<close>.
  \<open>get_by_id\<close> stands for \<^verbatim>\<open>blog_models.BlogPostSummaryModel.get_by_id\<close>, which returns
  \<^verbatim>\<open>None\<close> when there is no summary of that id and is asked for the title of the summary
  only; \<^verbatim>\<open>job_utils.clone_model\<close> returns a copy with the same properties. The result is the
  list of the findings yielded, or the exception that ends the generator.
\<close>

definition process ::
  "(string \<times> py_obj) list \<Rightarrow> (string \<Rightarrow> string option) \<Rightarrow> BlogPostModel \<Rightarrow>
   error + finding list" where
  "process globals get_by_id input_model =
     (let scope0 = [(''self'', SelfObj), (''input_model'', ModelObj input_model)] @ globals in
      and_then (lookup_name scope0 ''job_utils'') (\<lambda>_.
        let item = input_model;
            scope = (''item'', ModelObj item) # scope0
        in
        if BlogPostModel.title item \<noteq> [] then
          and_then (lookup_name scope ''blog_models'') (\<lambda>_.
            case get_by_id (BlogPostModel.id' item) of
              None \<Rightarrow> Inl (AttributeError ''title'')
            | Some blog_post_summary_title \<Rightarrow>
                if blog_post_summary_title \<noteq> BlogPostModel.title item then
                  and_then (lookup_name scope ''blog_validation_errors'') (\<lambda>_.
                  and_then (lookup_name scope ''model'') (\<lambda>v_model.
                    Inr [ValidateTitleMatchesSummaryTitleError v_model]))
                else Inr [])
        else Inr []))"

section \<open>An instance of the collaborators\<close>

text \<open>
  Modelled from the spec: the collaborators it lists as consumed (identity resolution from
  id to display name and back, HTML sanitisation, the URL-slug legality check, the
  thumbnail-filename legality check, the timestamp conversions) and the constants, none of
  which is among the sources. This instance serves to evaluate the model on concrete
  inputs; the general theorems hold for every instance. One user, with id
  \<^verbatim>\<open>uid_aaaaaaaa\<close> and username \<^verbatim>\<open>A\<close>; a title of at most 40 letters and spaces; a
  thumbnail that is \<^verbatim>\<open>None\<close> or a file name ending in \<^verbatim>\<open>.svg\<close> without a slash; a slug
  of lowercase letters and hyphens; sanitisation that leaves clean text as it is.
\<close>

definition ascii_uppercase :: string where
  "ascii_uppercase = ''ABCDEFGHIJKLMNOPQRSTUVWXYZ''"

definition example_users :: "(string \<times> string) list" where
  "example_users = [(''uid_aaaaaaaa'', ''A'')]"

definition example_get_username :: "pyval \<Rightarrow> error + pyval" where
  "example_get_username v =
     (case v of
        PyStr uid \<Rightarrow>
          (case map_of example_users uid of
             Some n \<Rightarrow> Inr (PyStr n)
           | None \<Rightarrow> Inl (Exception ''User not found.''))
      | _ \<Rightarrow> Inl (Exception ''User not found.''))"

definition example_get_user_id_from_username :: "pyval \<Rightarrow> error + pyval" where
  "example_get_user_id_from_username v =
     (case v of
        PyStr n \<Rightarrow>
          (case map_of (map (\<lambda>p. (snd p, fst p)) example_users) n of
             Some uid \<Rightarrow> Inr (PyStr uid)
           | None \<Rightarrow> Inr PyNone)
      | _ \<Rightarrow> Inr PyNone)"

definition example_title_regex :: "string \<Rightarrow> bool" where
  "example_title_regex t =
     (t \<noteq> [] \<and>
      list_all (\<lambda>c. c \<in> set ascii_lowercase \<or> c \<in> set ascii_uppercase \<or> c = CHR '' '') t)"

definition example_thumbnail_check :: "pyval \<Rightarrow> error + unit" where
  "example_thumbnail_check v =
     (case v of
        PyNone \<Rightarrow> Inr ()
      | PyStr s \<Rightarrow>
          if CHR ''/'' \<in> set s \<or> length s \<le> 4 \<or> drop (length s - 4) s \<noteq> ''.svg'' then
            Inl (ValidationError ''Thumbnail filename is not valid, received: %s'' [v])
          else Inr ()
      | _ \<Rightarrow> Inl (ValidationError ''Expected thumbnail filename to be a string, received %s'' [v]))"

definition example_url_fragment_check :: "pyval \<Rightarrow> string \<Rightarrow> nat \<Rightarrow> error + unit" where
  "example_url_fragment_check v name_type allowed_length =
     (case v of
        PyStr s \<Rightarrow>
          if s = [] then
            Inl (ValidationError ''%s field should not be empty.'' [PyStr name_type])
          else if length s > allowed_length then
            Inl (ValidationError ''%s field should not exceed %d characters, received %s.''
              [PyStr name_type, PyInt (int allowed_length), v])
          else if \<not> list_all (\<lambda>c. c \<in> set ascii_lowercase \<or> c = CHR ''-'') s then
            Inl (ValidationError ''%s field contains invalid characters, received %s.''
              [PyStr name_type, v])
          else Inr ()
      | _ \<Rightarrow>
          Inl (ValidationError ''%s field must be a string. Received %s.''
            [PyStr name_type, v]))"

definition example_clean :: "pyval \<Rightarrow> error + pyval" where
  "example_clean v =
     (case v of
        PyStr s \<Rightarrow> Inr (PyStr s)
      | _ \<Rightarrow> Inl (TypeError ''argument must be text''))"

definition example_datetime_to_string :: "datetime \<Rightarrow> string" where
  "example_datetime_to_string t = (case t of Datetime s \<Rightarrow> s)"

definition example_string_to_datetime :: "pyval \<Rightarrow> error + datetime" where
  "example_string_to_datetime v =
     (case v of
        PyStr s \<Rightarrow> Inr (Datetime s)
      | _ \<Rightarrow> Inl (TypeError ''strptime() argument 1 must be str''))"

definition example_env :: env where
  "example_env =
     \<lparr>MAX_CHARS_IN_BLOG_POST_TITLE = 40,
      MAX_CHARS_IN_BLOG_POST_URL_FRAGMENT = 65,
      re_match_VALID_BLOG_POST_TITLE_REGEX = example_title_regex,
      utils_require_valid_thumbnail_filename = example_thumbnail_check,
      utils_require_valid_url_fragment = example_url_fragment_check,
      html_cleaner_clean = example_clean,
      get_user_id_from_username = example_get_user_id_from_username,
      get_username = example_get_username,
      convert_naive_datetime_to_string = example_datetime_to_string,
      convert_string_to_naive_datetime_object = example_string_to_datetime\<rparr>"

text \<open>The post of the service tests after \<^verbatim>\<open>change_dict_two\<close>: title, thumbnail, content
  and tags set, never published.\<close>

definition example_post :: BlogPost where
  "example_post =
     \<lparr>BlogPost.id' = PyStr ''blogpost0001'',
      BlogPost.author_id = PyStr ''uid_aaaaaaaa'',
      BlogPost.title = PyStr ''Sample Title'',
      BlogPost.thumbnail_filename = PyStr ''thummbnail.svg'',
      BlogPost.content = PyStr ''<p>Hello</p>'',
      BlogPost.published_on = None,
      BlogPost.last_updated = None,
      BlogPost.url_fragment = PyStr ''sample-title'',
      BlogPost.tags = PyList [PyStr ''one'', PyStr ''two'']\<rparr>"

section \<open>Properties of tag validation\<close>

lemma space_not_lowercase: "CHR '' '' \<notin> set ascii_lowercase"
  by (simp add: ascii_lowercase_def)

lemma linefeed_not_lowercase: "CHR 0x0A \<notin> set ascii_lowercase"
  by (simp add: ascii_lowercase_def)

lemma lowercase_not_whitespace: "c \<in> set ascii_lowercase \<Longrightarrow> c \<notin> set whitespace"
  by (auto simp: ascii_lowercase_def whitespace_def)

lemma space_whitespace: "CHR '' '' \<in> set whitespace"
  by (simp add: whitespace_def)

lemma tag_char_whitespace:
  "tag_char c \<Longrightarrow> (c \<in> set whitespace) = (c \<notin> set ascii_lowercase)"
  using lowercase_not_whitespace space_whitespace by (auto simp: tag_char_def)

lemma lowercase_words_from_iff:
  "lowercase_words_from w s =
     ((w \<or> (s \<noteq> [] \<and> hd s \<in> set ascii_lowercase)) \<and> list_all tag_char s \<and>
      (s = [] \<or> last s \<in> set ascii_lowercase) \<and> \<not> re_search_adjacent_whitespace s)"
proof (induction s arbitrary: w)
  case Nil
  show ?case by simp
next
  case (Cons c cs)
  show ?case
  proof (cases cs)
    case Nil
    then show ?thesis
      by (auto simp: tag_char_def space_not_lowercase)
  next
    case (Cons b bs)
    show ?thesis
    proof (cases "c \<in> set ascii_lowercase")
      case True
      then show ?thesis
        using Cons.IH [of True] Cons lowercase_not_whitespace [of c]
        by (auto simp: tag_char_def)
    next
      case False
      then show ?thesis
        using Cons.IH [of False] Cons tag_char_whitespace [of b] space_whitespace
        by (auto simp: tag_char_def)
    qed
  qed
qed

lemma re_match_TAG_REGEX_last:
  "(re_match_TAG_REGEX s \<and> last s \<in> set ascii_lowercase) =
     (s \<noteq> [] \<and> list_all tag_char s \<and> last s \<in> set ascii_lowercase)"
  using linefeed_not_lowercase by (auto simp: re_match_TAG_REGEX_def Let_def)

lemma require_valid_tag_iff:
  "(BlogPost_require_valid_tag tag = Inr ()) = (\<exists>s. tag = PyStr s \<and> matches_lowercase_words s)"
proof (cases tag)
  case (PyStr s)
  show ?thesis
  proof (cases s)
    case Nil
    then show ?thesis using PyStr
      by (simp add: BlogPost_require_valid_tag_def matches_lowercase_words_def re_match_TAG_REGEX_def)
  next
    case (Cons c cs)
    have "(BlogPost_require_valid_tag tag = Inr ()) =
        (re_match_TAG_REGEX s \<and> hd s \<in> set ascii_lowercase \<and> last s \<in> set ascii_lowercase \<and>
         \<not> re_search_adjacent_whitespace s)"
      using PyStr Cons by (auto simp: BlogPost_require_valid_tag_def)
    also have "\<dots> = (hd s \<in> set ascii_lowercase \<and> (re_match_TAG_REGEX s \<and> last s \<in> set ascii_lowercase) \<and>
         \<not> re_search_adjacent_whitespace s)" by blast
    also have "\<dots> = matches_lowercase_words s"
      unfolding re_match_TAG_REGEX_last matches_lowercase_words_def lowercase_words_from_iff
      using Cons by auto
    finally show ?thesis using PyStr by simp
  qed
qed (simp_all add: BlogPost_require_valid_tag_def)

lemma require_valid_tag_cases:
  "BlogPost_require_valid_tag tag = Inr () \<or> is_validation_error (BlogPost_require_valid_tag tag)"
proof (cases tag)
  case (PyStr s)
  then show ?thesis
    by (cases s) (auto simp: BlogPost_require_valid_tag_def is_validation_error_def re_match_TAG_REGEX_def)
qed (simp_all add: BlogPost_require_valid_tag_def is_validation_error_def)

lemma require_valid_tags_loop_iff:
  "(BlogPost_require_valid_tags_loop ts = Inr ()) =
     (\<forall>t \<in> set ts. \<exists>s. t = PyStr s \<and> matches_lowercase_words s)"
proof (induction ts)
  case Nil
  show ?case by simp
next
  case (Cons t ts)
  show ?case
  proof (cases "BlogPost_require_valid_tag t")
    case (Inl e)
    then show ?thesis using require_valid_tag_iff [of t] by auto
  next
    case (Inr u)
    then show ?thesis using require_valid_tag_iff [of t] Cons.IH by auto
  qed
qed

lemma require_valid_tags_loop_cases:
  "BlogPost_require_valid_tags_loop ts = Inr () \<or> is_validation_error (BlogPost_require_valid_tags_loop ts)"
proof (induction ts)
  case Nil
  show ?case by simp
next
  case (Cons t ts)
  then show ?case
    using require_valid_tag_cases [of t] by (auto split: sum.splits)
qed

text \<open>
  Claim C2. For every list of tags and every strictness flag, \<open>BlogPost_require_valid_tags\<close>
  succeeds exactly when every tag is a string matching \<^verbatim>\<open>^[a-z]+( [a-z]+)*$\<close>, no tag
  occurs twice and, in strict mode, the list is not empty; in every other case the
  exception raised is a validation error (in particular the subscripts \<^verbatim>\<open>tag[0]\<close> and
  \<^verbatim>\<open>tag[-1]\<close> never raise IndexError).
\<close>

theorem require_valid_tags_correct:
  "(BlogPost_require_valid_tags (PyList ts) strict = Inr ()) =
     ((\<forall>t \<in> set ts. \<exists>s. t = PyStr s \<and> matches_lowercase_words s) \<and> distinct ts \<and>
      (strict \<longrightarrow> ts \<noteq> []))
   \<and> (BlogPost_require_valid_tags (PyList ts) strict = Inr () \<or>
      is_validation_error (BlogPost_require_valid_tags (PyList ts) strict))"
proof -
  have d: "(length (remdups ts) = length ts) = distinct ts"
    by (metis distinct_remdups length_remdups_eq remdups_id_iff_distinct)
  show ?thesis
  proof (cases "BlogPost_require_valid_tags_loop ts")
    case (Inl e)
    then show ?thesis
      using require_valid_tags_loop_iff [of ts] require_valid_tags_loop_cases [of ts]
      by (auto simp: BlogPost_require_valid_tags_def)
  next
    case (Inr u)
    then show ?thesis
      using require_valid_tags_loop_iff [of ts] d
      by (auto simp: BlogPost_require_valid_tags_def is_validation_error_def)
  qed
qed

theorem require_valid_tags_correct_witness:
  "BlogPost_require_valid_tags (PyList [PyStr ''one'', PyStr ''two words'']) True = Inr ()
   \<and> is_validation_error (BlogPost_require_valid_tags (PyList [PyStr ''one'', PyStr ''one'']) False)
   \<and> is_validation_error (BlogPost_require_valid_tags (PyList [PyStr ''two  words'']) False)
   \<and> is_validation_error (BlogPost_require_valid_tags (PyList []) True)"
  using require_valid_tags_correct [of "[PyStr ''one'', PyStr ''two words'']" True]
    require_valid_tags_correct [of "[PyStr ''one'', PyStr ''one'']" False]
    require_valid_tags_correct [of "[PyStr ''two  words'']" False]
    require_valid_tags_correct [of "[]" True]
  by (auto simp: matches_lowercase_words_def ascii_lowercase_def)

section \<open>Properties of the domain objects\<close>

lemmas example_defs =
  example_env_def example_post_def example_title_regex_def example_thumbnail_check_def
  example_url_fragment_check_def example_clean_def example_get_user_id_from_username_def
  example_get_username_def example_users_def example_datetime_to_string_def
  example_string_to_datetime_def ascii_lowercase_def ascii_uppercase_def

text \<open>Every field of the example post but its content passes the strict checks.\<close>

lemma example_post_valid_parts:
  "BlogPost_require_valid_blog_post_id (BlogPost.id' example_post) = Inr ()"
  "BlogPost_require_valid_title example_env (BlogPost.title example_post) True = Inr ()"
  "BlogPost_require_valid_tags (BlogPost.tags example_post) True = Inr ()"
  "BlogPost_require_valid_thumbnail_filename example_env
     (BlogPost.thumbnail_filename example_post) True = Inr ()"
  "BlogPost_require_valid_url_fragment example_env (BlogPost.url_fragment example_post) = Inr ()"
      apply (simp add: example_defs BlogPost_require_valid_blog_post_id_def)
     apply (simp add: example_defs BlogPost_require_valid_title_def)
    apply (simp add: example_defs BlogPost_require_valid_tags_def BlogPost_require_valid_tag_def
      re_match_TAG_REGEX_def tag_char_def whitespace_def)
   apply (simp add: example_defs BlogPost_require_valid_thumbnail_filename_def)
  apply (simp add: example_defs BlogPost_require_valid_url_fragment_def)
  done

subsection \<open>Serialisation\<close>

lemma json_loads_dumps: "json_loads (json_dumps v) = v"
  by (induction v) (auto intro!: map_idI simp: map_prod_def split: prod.splits)

lemmas roundtrip_unfold =
  and_then_def BlogPost_serialize_def BlogPost_to_dict_def BlogPost_deserialize_def
  BlogPost_from_dict_def BlogPost_init_def read_timestamp_def dict_contains_def
  dict_getitem_def dict_setitem_def json_loads_dumps

text \<open>
  Claim C1. What \<open>deserialize (serialize post)\<close> returns, whenever the two user lookups
  and the sanitiser return and the timestamp conversions are inverse: the post with its
  author reference replaced by \<^verbatim>\<open>get_user_id_from_username\<close> applied twice to it, and its
  content sanitised once more. Id, title, thumbnail, tags, URL fragment and both
  timestamps (absent key for \<^verbatim>\<open>None\<close>) come back as they were; the author reference
  does not, unless the lookup applied twice happens to return it.
\<close>

theorem roundtrip_characterised:
  assumes a1: "get_user_id_from_username env (BlogPost.author_id p) = Inr a"
    and a2: "get_user_id_from_username env a = Inr a'"
    and c: "html_cleaner_clean env (BlogPost.content p) = Inr c'"
    and t: "\<forall>t. convert_string_to_naive_datetime_object env
              (PyStr (convert_naive_datetime_to_string env t)) = Inr t"
  shows "and_then (BlogPost_serialize env p) (BlogPost_deserialize env) =
           Inr (p\<lparr>BlogPost.author_id := a', BlogPost.content := c'\<rparr>)"
proof (cases "BlogPost.last_updated p")
  case None
  note lu = None
  show ?thesis
  proof (cases "BlogPost.published_on p")
    case None
    with lu a1 a2 c show ?thesis
      by (simp add: roundtrip_unfold)
  next
    case (Some po)
    with lu a1 a2 c t show ?thesis
      by (simp add: roundtrip_unfold)
  qed
next
  case (Some l)
  note lu = Some
  show ?thesis
  proof (cases "BlogPost.published_on p")
    case None
    with lu a1 a2 c t show ?thesis
      by (simp add: roundtrip_unfold)
  next
    case (Some po)
    with lu a1 a2 c t show ?thesis
      by (simp add: roundtrip_unfold)
  qed
qed

text \<open>The example post, whose author is the user \<^verbatim>\<open>uid_aaaaaaaa\<close>, comes back with no
  author: no user has the username \<^verbatim>\<open>uid_aaaaaaaa\<close>.\<close>

theorem roundtrip_characterised_witness:
  "and_then (BlogPost_serialize example_env example_post) (BlogPost_deserialize example_env) =
     Inr (example_post\<lparr>BlogPost.author_id := PyNone\<rparr>)
   \<and> example_post\<lparr>BlogPost.author_id := PyNone\<rparr> \<noteq> example_post"
  using roundtrip_characterised [of example_env example_post PyNone PyNone
      "PyStr ''<p>Hello</p>''"]
  by (simp add: example_defs split: datetime.splits)

subsection \<open>The update methods\<close>

text \<open>
  Claim C3, as amended. \<open>update_title\<close>, \<open>update_tags\<close> and \<open>update_url_fragment\<close> have
  the outcome of the validator of the field they touch, run on the new value (in strict
  mode where the validator has one), and write the new value exactly when it accepts;
  \<open>update_content\<close> consults no validator: it writes the sanitised content whenever the
  sanitiser returns.
\<close>

theorem update_methods_validation:
  "fst (update_title env v p) = BlogPost_require_valid_title env v True
   \<and> snd (update_title env v p) =
       (if BlogPost_require_valid_title env v True = Inr () then p\<lparr>BlogPost.title := v\<rparr> else p)
   \<and> fst (update_tags v p) = BlogPost_require_valid_tags v True
   \<and> snd (update_tags v p) =
       (if BlogPost_require_valid_tags v True = Inr () then p\<lparr>BlogPost.tags := v\<rparr> else p)
   \<and> fst (update_url_fragment env v p) = BlogPost_require_valid_url_fragment env v
   \<and> snd (update_url_fragment env v p) =
       (if BlogPost_require_valid_url_fragment env v = Inr () then p\<lparr>BlogPost.url_fragment := v\<rparr>
        else p)
   \<and> update_content env v p =
       (case html_cleaner_clean env v of
          Inl e \<Rightarrow> (Inl e, p)
        | Inr cleaned \<Rightarrow> (Inr (), p\<lparr>BlogPost.content := cleaned\<rparr>))"
  by (simp add: update_title_def update_tags_def update_url_fragment_def update_content_def
      split: sum.splits)

theorem update_methods_validation_witness:
  "update_title example_env (PyStr []) example_post =
     (Inl (ValidationError ''Title should not be empty'' []), example_post)
   \<and> update_content example_env (PyStr ''<p>Bye</p>'') example_post =
     (Inr (), example_post\<lparr>BlogPost.content := PyStr ''<p>Bye</p>''\<rparr>)"
  using update_methods_validation [of example_env "PyStr []" example_post]
    update_methods_validation [of example_env "PyStr ''<p>Bye</p>''" example_post]
  by (simp add: prod_eq_iff BlogPost_require_valid_title_def example_env_def example_clean_def)

text \<open>
  The claim as stated fails: \<open>update_content\<close> accepts the empty content and stores it,
  although the strict validation of the resulting post rejects exactly that content.
\<close>

theorem update_content_unvalidated:
  "fst (update_content example_env (PyStr []) example_post) = Inr ()
   \<and> BlogPost.content (snd (update_content example_env (PyStr []) example_post)) = PyStr []
   \<and> fst (BlogPost_validate example_env True
        (snd (update_content example_env (PyStr []) example_post))) =
       Inl (ValidationError ''Content can not be empty'' [])"
  by (simp add: update_content_def BlogPost_validate_def example_defs
      BlogPost_require_valid_blog_post_id_def BlogPost_require_valid_title_def
      BlogPost_require_valid_tags_def BlogPost_require_valid_tag_def
      re_match_TAG_REGEX_def tag_char_def whitespace_def
      BlogPost_require_valid_thumbnail_filename_def BlogPost_require_valid_url_fragment_def)

text \<open>\<open>update_thumbnail_filename\<close> checks the filename the post already has, in non-strict
  mode: here it stores the empty filename, which the validator rejects.\<close>

lemma update_thumbnail_filename_checks_old:
  "update_thumbnail_filename example_env (PyStr []) example_post =
     (Inr (), example_post\<lparr>BlogPost.thumbnail_filename := PyStr []\<rparr>)
   \<and> BlogPost_require_valid_thumbnail_filename example_env (PyStr []) True =
       Inl (ValidationError ''Thumbnail filename should not be empty.'' [])"
  by (simp add: update_thumbnail_filename_def BlogPost_require_valid_thumbnail_filename_def
      example_defs)

subsection \<open>The validators of BlogPostSummary\<close>

lemma summary_tag_eq: "BlogPostSummary_require_valid_tag t = BlogPost_require_valid_tag t"
  by (simp add: BlogPostSummary_require_valid_tag_def BlogPost_require_valid_tag_def)

lemma summary_tags_loop_eq:
  "BlogPostSummary_require_valid_tags_loop ts = BlogPost_require_valid_tags_loop ts"
  by (induction ts) (simp_all add: summary_tag_eq split: sum.splits)

lemma summary_tags_eq:
  "BlogPostSummary_require_valid_tags v strict = BlogPost_require_valid_tags v strict"
  by (simp add: BlogPostSummary_require_valid_tags_def BlogPost_require_valid_tags_def
      summary_tags_loop_eq split: pyval.splits)

lemma summary_thumbnail_eq:
  "(BlogPostSummary_require_valid_thumbnail_filename env v strict = Inr ()) =
   (BlogPost_require_valid_thumbnail_filename env v strict = Inr ())"
  by (simp add: BlogPostSummary_require_valid_thumbnail_filename_def
      BlogPost_require_valid_thumbnail_filename_def)

lemma post_title_accepts:
  "(BlogPost_require_valid_title env v strict = Inr ()) =
   (\<exists>t. v = PyStr t \<and> length t \<le> MAX_CHARS_IN_BLOG_POST_TITLE env \<and>
        (\<not> strict \<or> (t \<noteq> [] \<and> re_match_VALID_BLOG_POST_TITLE_REGEX env t)))"
  by (cases v) (auto simp: BlogPost_require_valid_title_def)

lemma summary_title_accepts:
  "(BlogPostSummary_require_valid_title env v strict = Inr ()) =
   (\<exists>t. v = PyStr t \<and> length t \<le> MAX_CHARS_IN_BLOG_POST_TITLE env \<and> (\<not> strict \<or> t \<noteq> []))"
  by (cases v) (auto simp: BlogPostSummary_require_valid_title_def)

text \<open>
  Claim C4, as amended. The tag validators of the two classes have the same outcome on
  every input, the thumbnail validators accept the same inputs, and the title validators
  accept the same inputs in non-strict mode. In strict mode the post's title validator
  accepts exactly the titles that the summary's accepts and that match
  \<^verbatim>\<open>VALID_BLOG_POST_TITLE_REGEX\<close>: the summary's own check has no pattern test.
\<close>

theorem summary_validators_compared:
  "BlogPostSummary_require_valid_tags v strict = BlogPost_require_valid_tags v strict
   \<and> (BlogPostSummary_require_valid_thumbnail_filename env v strict = Inr ()) =
       (BlogPost_require_valid_thumbnail_filename env v strict = Inr ())
   \<and> (BlogPostSummary_require_valid_title env v False = Inr ()) =
       (BlogPost_require_valid_title env v False = Inr ())
   \<and> (BlogPost_require_valid_title env v True = Inr ()) =
       (BlogPostSummary_require_valid_title env v True = Inr () \<and>
        (\<exists>t. v = PyStr t \<and> re_match_VALID_BLOG_POST_TITLE_REGEX env t))"
  using summary_tags_eq [of v strict] summary_thumbnail_eq [of env v strict]
  by (auto simp: post_title_accepts summary_title_accepts)

theorem summary_validators_compared_witness:
  "BlogPostSummary_require_valid_title example_env (PyStr ''Sample Title'') True = Inr ()
   \<and> BlogPost_require_valid_title example_env (PyStr ''Sample Title'') True = Inr ()"
  using summary_validators_compared [of "PyStr ''Sample Title''" True example_env]
  by (simp add: BlogPostSummary_require_valid_title_def example_defs)

text \<open>
  The claim as stated fails: in strict mode the summary accepts a title with a character
  that is neither a letter nor a space, and the post rejects it.
\<close>

theorem summary_title_not_mirrored:
  "BlogPostSummary_require_valid_title example_env (PyStr ''Sample Title#'') True = Inr ()
   \<and> BlogPost_require_valid_title example_env (PyStr ''Sample Title#'') True =
       Inl (ValidationError
         (''Title field contains invalid characters. Only words'' @
          ''(a-zA-Z) separated by spaces are allowed. Received %s'')
         [PyStr ''Sample Title#''])"
  by (simp add: BlogPostSummary_require_valid_title_def BlogPost_require_valid_title_def
      example_defs)

subsection \<open>Validation of a post\<close>

text \<open>
  Claim C8. If the id, title, tags, thumbnail filename and URL fragment of a post pass
  their strict checks and its content is the empty string, \<open>validate\<close> in strict mode
  raises the validation error \<^verbatim>\<open>Content can not be empty\<close> and leaves the post as it was.
\<close>

theorem validate_empty_content:
  assumes "BlogPost_require_valid_blog_post_id (BlogPost.id' p) = Inr ()"
    and "BlogPost_require_valid_title env (BlogPost.title p) True = Inr ()"
    and "BlogPost_require_valid_tags (BlogPost.tags p) True = Inr ()"
    and "BlogPost_require_valid_thumbnail_filename env (BlogPost.thumbnail_filename p) True =
           Inr ()"
    and "BlogPost_require_valid_url_fragment env (BlogPost.url_fragment p) = Inr ()"
    and "BlogPost.content p = PyStr []"
  shows "BlogPost_validate env True p =
           (Inl (ValidationError ''Content can not be empty'' []), p)"
  using assms by (simp add: BlogPost_validate_def)

theorem validate_empty_content_witness:
  "BlogPost_validate example_env True (example_post\<lparr>BlogPost.content := PyStr []\<rparr>) =
     (Inl (ValidationError ''Content can not be empty'' []),
      example_post\<lparr>BlogPost.content := PyStr []\<rparr>)"
  using validate_empty_content [of "example_post\<lparr>BlogPost.content := PyStr []\<rparr>" example_env]
    example_post_valid_parts
  by simp

lemma BlogPost_validate_frame: "snd (BlogPost_validate env strict p) = p"
  by (simp add: BlogPost_validate_def split: sum.splits pyval.splits)

lemma BlogPostSummary_validate_frame: "snd (BlogPostSummary_validate env strict s) = s"
  by (simp add: BlogPostSummary_validate_def split: sum.splits pyval.splits)

text \<open>
  Claim C10. In either strictness mode, \<open>validate\<close> of a post and of a summary leaves the
  object with every field as it was, whether it returns or raises.
\<close>

theorem validate_read_only:
  "snd (BlogPost_validate env strict p) = p \<and> snd (BlogPostSummary_validate env strict s) = s"
  using BlogPost_validate_frame BlogPostSummary_validate_frame by simp

subsection \<open>Rights\<close>

text \<open>
  Claim C9. \<open>is_editor\<close> is true of a user id exactly when it is among the editor ids, and
  false of \<^verbatim>\<open>None\<close>, whatever the editor ids are.
\<close>

theorem is_editor_membership:
  "is_editor r (Some u) = (u \<in> set (BlogPostRights.editor_ids r)) \<and> is_editor r None = False"
  by (auto simp: is_editor_def)

section \<open>Properties of the audits\<close>

text \<open>
  Claim C7. Whatever record it is given, the constructor of \<open>DuplicateBlogUrlError\<close> builds
  its message from the title of the record, not from its URL fragment, and then raises
  TypeError, since it calls \<^verbatim>\<open>super\<close> with the class \<^verbatim>\<open>DuplicateBlogTitleError\<close>, of which the
  object is no instance.
\<close>

theorem DuplicateBlogUrlError_uses_title:
  "DuplicateBlogUrlError_message quoted m =
     ''url='' @ quoted (BlogPostModel.title m) @ '' is not unique''
   \<and> DuplicateBlogUrlError quoted m =
       Inl (TypeError ''super(type, obj): obj must be an instance or subtype of type'')"
  by (simp add: DuplicateBlogUrlError_message_def DuplicateBlogUrlError_def super_init_def
      issubclass_def)

theorem DuplicateBlogUrlError_uses_title_witness:
  "DuplicateBlogUrlError_message (\<lambda>s. [CHR 0x22] @ s @ [CHR 0x22])
     \<lparr>BlogPostModel.id' = ''blogpost0001'', BlogPostModel.title = ''Sample Title'',
      BlogPostModel.url_fragment = ''sample-title''\<rparr> =
     ''url='' @ [CHR 0x22] @ ''Sample Title'' @ [CHR 0x22] @ '' is not unique''"
  using DuplicateBlogUrlError_uses_title [of "\<lambda>s. [CHR 0x22] @ s @ [CHR 0x22]"
      "\<lparr>BlogPostModel.id' = ''blogpost0001'', BlogPostModel.title = ''Sample Title'',
        BlogPostModel.url_fragment = ''sample-title''\<rparr>"]
  by simp

text \<open>The sibling constructor returns the error, with the title in its message.\<close>

lemma DuplicateBlogTitleError_returns:
  "DuplicateBlogTitleError quoted m =
     Inr \<lparr>error_class_of = DuplicateBlogTitleError_class,
          message = ''title='' @ quoted (BlogPostModel.title m) @ '' is not unique'',
          model = m\<rparr>"
  by (simp add: DuplicateBlogTitleError_def DuplicateBlogTitleError_message_def super_init_def
      issubclass_def)

text \<open>Whatever else a module binds, the method raises NameError as long as \<^verbatim>\<open>item\<close> is
  not bound at its top level.\<close>

lemma validation_type_unbound_item:
  "map_of g ''item'' = None \<Longrightarrow>
   \<exists>n. get_domain_object_validation_type g get_rights m = Inl (NameError n)"
  by (auto simp: get_domain_object_validation_type_def lookup_name_def and_then_def
      split: option.splits)

text \<open>
  Claim C6. For every record and every rights store, published or not,
  \<open>_get_domain_object_validation_type\<close> returns no validation mode: it raises NameError
  at the first name it reads.
\<close>

theorem validation_type_raises:
  "get_domain_object_validation_type module_globals get_rights m =
     Inl (NameError ''blog_services'')"
  by (simp add: get_domain_object_validation_type_def lookup_name_def and_then_def
      module_globals_def)

text \<open>Whatever else a module binds, a mismatch raises NameError as long as \<^verbatim>\<open>model\<close> is
  not bound at its top level.\<close>

lemma process_unbound_model:
  "map_of g ''model'' = None \<Longrightarrow> BlogPostModel.title m \<noteq> [] \<Longrightarrow>
   get_by_id (BlogPostModel.id' m) = Some t \<Longrightarrow> t \<noteq> BlogPostModel.title m \<Longrightarrow>
   \<exists>n. process g get_by_id m = Inl (NameError n)"
  by (auto simp: process_def lookup_name_def and_then_def Let_def split: option.splits)

text \<open>
  Claim C5. \<open>process\<close> yields nothing for a record with the empty title and nothing for a
  record whose title equals that of its summary; for a record with a non-empty title that
  differs from that of its summary it yields no error either: it raises NameError.
\<close>

theorem process_title_audit:
  "(BlogPostModel.title m = [] \<longrightarrow> process module_globals get_by_id m = Inr [])
   \<and> (BlogPostModel.title m \<noteq> [] \<and> get_by_id (BlogPostModel.id' m) = Some (BlogPostModel.title m)
        \<longrightarrow> process module_globals get_by_id m = Inr [])
   \<and> (BlogPostModel.title m \<noteq> [] \<and> get_by_id (BlogPostModel.id' m) = Some t \<and>
      t \<noteq> BlogPostModel.title m
        \<longrightarrow> process module_globals get_by_id m = Inl (NameError ''blog_validation_errors''))"
  by (simp add: process_def lookup_name_def and_then_def module_globals_def Let_def)

theorem process_title_audit_witness:
  "process module_globals (\<lambda>i. if i = ''blogpost0001'' then Some [] else None)
     \<lparr>BlogPostModel.id' = ''blogpost0001'', BlogPostModel.title = ''Sample Title'',
      BlogPostModel.url_fragment = ''sample-title''\<rparr> =
     Inl (NameError ''blog_validation_errors'')
   \<and> process module_globals (\<lambda>i. if i = ''blogpost0001'' then Some ''Sample Title'' else None)
     \<lparr>BlogPostModel.id' = ''blogpost0001'', BlogPostModel.title = ''Sample Title'',
      BlogPostModel.url_fragment = ''sample-title''\<rparr> = Inr []
   \<and> process module_globals (\<lambda>i. None)
     \<lparr>BlogPostModel.id' = ''blogpost0001'', BlogPostModel.title = [],
      BlogPostModel.url_fragment = []\<rparr> = Inr []"
  using process_title_audit [of
      "\<lparr>BlogPostModel.id' = ''blogpost0001'', BlogPostModel.title = ''Sample Title'',
        BlogPostModel.url_fragment = ''sample-title''\<rparr>"
      "\<lambda>i. if i = ''blogpost0001'' then Some [] else None" "[]"]
    process_title_audit [of
      "\<lparr>BlogPostModel.id' = ''blogpost0001'', BlogPostModel.title = ''Sample Title'',
        BlogPostModel.url_fragment = ''sample-title''\<rparr>"
      "\<lambda>i. if i = ''blogpost0001'' then Some ''Sample Title'' else None" "[]"]
    process_title_audit [of
      "\<lparr>BlogPostModel.id' = ''blogpost0001'', BlogPostModel.title = [],
        BlogPostModel.url_fragment = []\<rparr>" "\<lambda>i. None" "[]"]
  by simp

end
